theory Spec2Isabelle
  imports Complex_Main "HOL-Library.AList"
begin

section \<open>Data model of app.py\<close>

text \<open>
  Python \<open>float\<close> values (prices, totals; SQL \<open>REAL\<close>) are modelled as \<open>real\<close>:
  arithmetic is exact, and rounding, overflow, infinities and NaN of IEEE doubles are
  not modelled. Python \<open>int\<close> is \<open>int\<close>, \<open>str\<close> is \<open>string\<close>.
  Logging (\<open>logger.info\<close>) and \<open>flash\<close> messages are not modelled.
\<close>

datatype error =
    ValueError string
  | Exception string
  | IntegrityError
  | TypeError
  | BadRequestKeyError

text \<open>class \<open>Product\<close>: three attributes, set once in \<open>__init__\<close>.\<close>

record product =
  name :: string
  price :: real
  category :: string

text \<open>
  The value stored under a product name in \<open>Cart.items\<close>: the inner dictionary
  \<open>{'product': product, 'quantity': quantity}\<close>. An inner dictionary is referenced
  only from the one outer dictionary that holds it, so it is stored by value.
\<close>

record cart_item =
  product :: product
  quantity :: int

text \<open>
  A Python \<open>dict\<close> keeps its keys in insertion order: assigning to a present key keeps
  the key's position, assigning to an absent key appends, \<open>del\<close> removes the entry.
  \<open>AList.update\<close> and \<open>AList.delete\<close> do exactly this on an association list.
\<close>

type_synonym items_dict = "(string \<times> cart_item) list"

definition dict_contains :: "items_dict \<Rightarrow> string \<Rightarrow> bool" where
  "dict_contains d k = (map_of d k \<noteq> None)"

definition dict_values :: "items_dict \<Rightarrow> cart_item list" where
  "dict_values d = map snd d"

subsection \<open>The object store\<close>

text \<open>
  Dictionaries are mutable objects: \<open>Cart.get_items\<close> returns the dictionary itself and
  \<open>Order.__init__\<close> keeps that reference, so the dictionaries live in a heap and are
  named by addresses. \<open>Cart_instance\<close> is the class attribute \<open>Cart._instance\<close>:
  \<open>None\<close> before the first \<open>Cart()\<close>, afterwards the one \<open>Cart\<close> object, which is
  represented by its only attribute \<open>items\<close>, a reference to a dictionary.
\<close>

type_synonym addr = nat

record store =
  heap :: "addr \<Rightarrow> items_dict"
  next_addr :: addr
  Cart_instance :: "addr option"

text \<open>Evaluating the display \<open>{}\<close>: a new, empty dictionary object.\<close>

definition new_dict :: "store \<Rightarrow> addr \<times> store" where
  "new_dict s =
     (next_addr s, s\<lparr>heap := (heap s)(next_addr s := []), next_addr := Suc (next_addr s)\<rparr>)"

text \<open>Every reference held by the program points below the allocation pointer.\<close>

definition store_ok :: "store \<Rightarrow> bool" where
  "store_ok s = (case Cart_instance s of None \<Rightarrow> True | Some a \<Rightarrow> a < next_addr s)"

definition empty_store :: store where
  "empty_store = \<lparr>heap = (\<lambda>_. []), next_addr = 0, Cart_instance = None\<rparr>"

section \<open>The singleton Cart\<close>

text \<open>
  \<open>Cart.__init__\<close>: creates the instance when there is none, raises otherwise. The
  result is the new object's \<open>items\<close> reference.
\<close>

definition Cart_init :: "store \<Rightarrow> (error + addr) \<times> store" where
  "Cart_init s =
     (case Cart_instance s of
        None \<Rightarrow> (let (a, s') = new_dict s in (Inr a, s'\<lparr>Cart_instance := Some a\<rparr>))
      | Some _ \<Rightarrow> (Inl (Exception ''This class is a singleton!''), s))"

definition get_instance :: "store \<Rightarrow> addr \<times> store" where
  "get_instance s =
     (case Cart_instance s of
        None \<Rightarrow> (let (a, s') = new_dict s in (a, s'\<lparr>Cart_instance := Some a\<rparr>))
      | Some a \<Rightarrow> (a, s))"

text \<open>
  The methods of the instance. They are called on \<open>user.cart\<close>, which is the value of
  \<open>Cart.get_instance()\<close>, so the instance exists; with no instance there is no object
  to call them on and the store stays as it is.
\<close>

definition get_items :: "store \<Rightarrow> addr option" where
  "get_items s = Cart_instance s"

definition add_item_dict :: "product \<Rightarrow> int \<Rightarrow> items_dict \<Rightarrow> items_dict" where
  "add_item_dict p q d =
     (case map_of d (name p) of
        Some it \<Rightarrow> AList.update (name p) (it\<lparr>quantity := quantity it + q\<rparr>) d
      | None \<Rightarrow> AList.update (name p) \<lparr>product = p, quantity = q\<rparr> d)"

definition add_item :: "product \<Rightarrow> int \<Rightarrow> store \<Rightarrow> store" where
  "add_item p q s =
     (case Cart_instance s of
        None \<Rightarrow> s
      | Some a \<Rightarrow> s\<lparr>heap := (heap s)(a := add_item_dict p q (heap s a))\<rparr>)"

definition remove_item_dict :: "product \<Rightarrow> items_dict \<Rightarrow> items_dict" where
  "remove_item_dict p d = (if dict_contains d (name p) then AList.delete (name p) d else d)"

definition remove_item :: "product \<Rightarrow> store \<Rightarrow> store" where
  "remove_item p s =
     (case Cart_instance s of
        None \<Rightarrow> s
      | Some a \<Rightarrow> s\<lparr>heap := (heap s)(a := remove_item_dict p (heap s a))\<rparr>)"

text \<open>\<open>clear\<close> binds \<open>self.items\<close> to a new dictionary; the old one is not emptied.\<close>

definition clear :: "store \<Rightarrow> store" where
  "clear s =
     (case Cart_instance s of
        None \<Rightarrow> s
      | Some _ \<Rightarrow> (let (a, s') = new_dict s in s'\<lparr>Cart_instance := Some a\<rparr>))"

text \<open>The lines of the cart, in the dictionary's order (no lines when there is no cart).\<close>

definition cart_lines :: "store \<Rightarrow> items_dict" where
  "cart_lines s = (case Cart_instance s of None \<Rightarrow> [] | Some a \<Rightarrow> heap s a)"

datatype cart_op = Add product int | Remove product | Clear

fun cart_step :: "cart_op \<Rightarrow> store \<Rightarrow> store" where
  "cart_step (Add p q) s = add_item p q s"
| "cart_step (Remove p) s = remove_item p s"
| "cart_step Clear s = clear s"

definition cart_run :: "cart_op list \<Rightarrow> store \<Rightarrow> store" where
  "cart_run ops s = fold cart_step ops s"

section \<open>The database\<close>

text \<open>
  The three tables of \<open>create_tables\<close>. A table is the list of its rows in insertion
  order (the order of the row ids); \<open>AUTOINCREMENT\<close> gives a new row an id above every
  id used before, which the sequence counters record. A \<open>SELECT\<close> with no
  \<open>ORDER BY\<close> scans a table in that order; \<open>fetchone\<close> takes the first row of the
  result and \<open>fetchall\<close> all of them.
\<close>

record product_row =
  p_id :: nat
  p_name :: string
  p_price :: real
  p_category :: string

record user_row =
  u_id :: nat
  u_username :: string
  u_password :: string

record order_row =
  o_order_id :: nat
  o_user_id :: nat
  o_total_amount :: real
  o_payment_method :: string
  o_summary :: string

record database =
  products :: "product_row list"
  products_seq :: nat
  users :: "user_row list"
  users_seq :: nat
  orders :: "order_row list"
  orders_seq :: nat

text \<open>The dictionary \<open>fetch_orders_by_user_id\<close> builds for each row: four keys.\<close>

record order_dict =
  order_id :: nat
  total_amount :: real
  payment_method :: string
  summary :: string

definition insert_product :: "string \<Rightarrow> real \<Rightarrow> string \<Rightarrow> database \<Rightarrow> database" where
  "insert_product n pr c db =
     db\<lparr>products := products db @
            [\<lparr>p_id = Suc (products_seq db), p_name = n, p_price = pr, p_category = c\<rparr>],
        products_seq := Suc (products_seq db)\<rparr>"

definition fetch_products :: "database \<Rightarrow> product list" where
  "fetch_products db =
     map (\<lambda>row. \<lparr>name = p_name row, price = p_price row, category = p_category row\<rparr>)
       (products db)"

definition fetch_product_by_name :: "database \<Rightarrow> string \<Rightarrow> product option" where
  "fetch_product_by_name db n =
     (case filter (\<lambda>row. p_name row = n) (products db) of
        [] \<Rightarrow> None
      | row # _ \<Rightarrow> Some \<lparr>name = p_name row, price = p_price row, category = p_category row\<rparr>)"

text \<open>The column \<open>username\<close> is \<open>UNIQUE\<close>: inserting a second row of a name fails.\<close>

definition insert_user :: "string \<Rightarrow> string \<Rightarrow> database \<Rightarrow> error + database" where
  "insert_user un pw db =
     (if \<exists>row \<in> set (users db). u_username row = un then Inl IntegrityError
      else Inr (db\<lparr>users := users db @
                       [\<lparr>u_id = Suc (users_seq db), u_username = un, u_password = pw\<rparr>],
                   users_seq := Suc (users_seq db)\<rparr>))"

definition fetch_user :: "database \<Rightarrow> string \<Rightarrow> user_row option" where
  "fetch_user db un =
     (case filter (\<lambda>row. u_username row = un) (users db) of
        [] \<Rightarrow> None
      | row # _ \<Rightarrow> Some row)"

definition insert_order :: "nat \<Rightarrow> real \<Rightarrow> string \<Rightarrow> string \<Rightarrow> database \<Rightarrow> database" where
  "insert_order uid amount pm sm db =
     db\<lparr>orders := orders db @
            [\<lparr>o_order_id = Suc (orders_seq db), o_user_id = uid, o_total_amount = amount,
              o_payment_method = pm, o_summary = sm\<rparr>],
        orders_seq := Suc (orders_seq db)\<rparr>"

definition fetch_orders_by_user_id :: "database \<Rightarrow> nat \<Rightarrow> order_dict list" where
  "fetch_orders_by_user_id db uid =
     map (\<lambda>row. \<lparr>order_id = o_order_id row, total_amount = o_total_amount row,
                 payment_method = o_payment_method row, summary = o_summary row\<rparr>)
       (filter (\<lambda>row. o_user_id row = uid) (orders db))"

section \<open>The process state, users and authentication\<close>

text \<open>The state of the process: the global \<open>db\<close> and the objects.\<close>

record world =
  wdb :: database
  wobjs :: store

text \<open>
  class \<open>User\<close>. Its fourth attribute \<open>cart\<close> is \<open>Cart.get_instance()\<close>, the one
  \<open>Cart\<close> object of the process, whose state is \<open>Cart_instance\<close> of the store: the
  record keeps the other three, and \<open>User_init\<close> runs \<open>get_instance\<close>.
\<close>

record user =
  user_id :: nat
  username :: string
  password :: string

definition User_init :: "nat \<Rightarrow> string \<Rightarrow> string \<Rightarrow> store \<Rightarrow> user \<times> store" where
  "User_init uid un pw s =
     (\<lparr>user_id = uid, username = un, password = pw\<rparr>, snd (get_instance s))"

definition register_user :: "string \<Rightarrow> string \<Rightarrow> world \<Rightarrow> (error + user) \<times> world" where
  "register_user un pw w =
     (case fetch_user (wdb w) un of
        Some _ \<Rightarrow> (Inl (ValueError ''User already exists.''), w)
      | None \<Rightarrow>
          (case insert_user un pw (wdb w) of
             Inl e \<Rightarrow> (Inl e, w)
           | Inr db' \<Rightarrow>
               (case fetch_user db' un of
                  None \<Rightarrow> (Inl TypeError, w\<lparr>wdb := db'\<rparr>)
                | Some user_data \<Rightarrow>
                    (let (u, s') = User_init (u_id user_data) un pw (wobjs w)
                     in (Inr u, \<lparr>wdb = db', wobjs = s'\<rparr>)))))"

definition login :: "string \<Rightarrow> string \<Rightarrow> world \<Rightarrow> (error + user) \<times> world" where
  "login un pw w =
     (case fetch_user (wdb w) un of
        Some user_data \<Rightarrow>
          (if u_password user_data = pw
           then (let (u, s') = User_init (u_id user_data) un pw (wobjs w)
                 in (Inr u, w\<lparr>wobjs := s'\<rparr>))
           else (Inl (ValueError ''Invalid username or password.''), w))
      | None \<Rightarrow> (Inl (ValueError ''Invalid username or password.''), w))"

section \<open>The catalog\<close>

definition add_product :: "product \<Rightarrow> database \<Rightarrow> database" where
  "add_product p db = insert_product (name p) (price p) (category p) db"

definition get_product :: "database \<Rightarrow> string \<Rightarrow> product option" where
  "get_product db n =
     (case fetch_product_by_name db n of
        Some product_data \<Rightarrow>
          Some \<lparr>name = name product_data, price = price product_data,
                category = category product_data\<rparr>
      | None \<Rightarrow> None)"

definition list_products :: "database \<Rightarrow> product list" where
  "list_products db =
     map (\<lambda>p. \<lparr>name = name p, price = price p, category = category p\<rparr>) (fetch_products db)"

section \<open>Orders and payment\<close>

text \<open>
  class \<open>Order\<close>: \<open>self.items = user.cart.get_items()\<close> stores the reference that
  \<open>get_items\<close> returns, the cart's own dictionary, and copies nothing.
\<close>

record Order =
  order_user :: user
  order_items :: addr

definition Order_init :: "user \<Rightarrow> store \<Rightarrow> Order option" where
  "Order_init u s =
     (case get_items s of
        None \<Rightarrow> None
      | Some a \<Rightarrow> Some \<lparr>order_user = u, order_items = a\<rparr>)"

text \<open>
  \<open>create_order\<close>: an empty dictionary is false in Python. With no cart object there
  is no \<open>user.cart\<close> (a \<open>User\<close> always has one), which is the \<open>TypeError\<close> branch.
\<close>

definition create_order :: "user \<Rightarrow> store \<Rightarrow> error + Order" where
  "create_order u s =
     (case get_items s of
        None \<Rightarrow> Inl TypeError
      | Some a \<Rightarrow>
          (if heap s a = [] then Inl (ValueError ''Cart is empty.'')
           else (case Order_init u s of None \<Rightarrow> Inl TypeError | Some ord \<Rightarrow> Inr ord)))"

definition confirm_order :: "user \<Rightarrow> store \<Rightarrow> store" where
  "confirm_order u s = clear s"

text \<open>Python's \<open>sum\<close>: adds the elements to 0 from left to right.\<close>

definition py_sum :: "real list \<Rightarrow> real" where
  "py_sum xs = foldl (+) 0 xs"

text \<open>
  A \<open>PaymentGateway\<close> is its function \<open>process_payment\<close>, from the amount to the
  verdict. \<open>PaymentProcessor\<close> is constructed with one.
\<close>

type_synonym payment_gateway = "real \<Rightarrow> bool"

definition MockPaymentGateway :: payment_gateway where
  "MockPaymentGateway amount = True"

text \<open>
  \<open>process_order_payment\<close>. The products and their sum are exact here. In Python they
  are doubles: each product and the sum are rounded, \<open>float * int\<close> raises
  \<open>OverflowError\<close> for an integer beyond the range of a double, and a result may be
  infinite. The statements below relate the total to the lines and to what is stored and
  shown; they say nothing of that rounding.
\<close>

definition process_order_payment ::
  "payment_gateway \<Rightarrow> Order \<Rightarrow> string \<Rightarrow> store \<Rightarrow> bool \<times> real" where
  "process_order_payment gateway ord pm s =
     (let amount = py_sum (map (\<lambda>item. price (product item) * of_int (quantity item))
                             (dict_values (heap s (order_items ord))))
      in (gateway amount, amount))"

section \<open>Rendering numbers\<close>

text \<open>\<open>str\<close> of an \<open>int\<close>: decimal digits, with a minus sign when negative.\<close>

fun str_nat :: "nat \<Rightarrow> string" where
  "str_nat n =
     (if n < 10 then [''0123456789'' ! n]
      else str_nat (n div 10) @ [''0123456789'' ! (n mod 10)])"

declare str_nat.simps [simp del]

definition str_int :: "int \<Rightarrow> string" where
  "str_int i = (if i < 0 then CHR ''-'' # str_nat (nat (- i)) else str_nat (nat i))"

text \<open>
  \<open>str\<close> of a \<open>float\<close>, as an f-string renders \<open>{price}\<close>. A float with an integral
  value of magnitude below \<open>10^16\<close> prints as that integer followed by \<open>.0\<close>. Every
  other value prints its shortest digit string that reads back as the same double, which
  depends on the binary representation: that part is the parameter \<open>other\<close>.
\<close>

definition str_float :: "(real \<Rightarrow> string) \<Rightarrow> real \<Rightarrow> string" where
  "str_float other x =
     (if of_int \<lfloor>x\<rfloor> = x \<and> \<bar>x\<bar> < 10 ^ 16 then str_int \<lfloor>x\<rfloor> @ ''.0'' else other x)"

text \<open>
  The format \<open>.2f\<close>: the value rounded to two decimals, ties to the even neighbour,
  at least one digit before the point, and the sign of a negative value kept.
\<close>

definition round_half_even :: "real \<Rightarrow> int" where
  "round_half_even x =
     (let f = \<lfloor>x\<rfloor>; r = x - of_int f
      in if r < 1 / 2 then f else if 1 / 2 < r then f + 1 else if even f then f else f + 1)"

definition format_2f :: "real \<Rightarrow> string" where
  "format_2f x =
     (let n = nat (round_half_even (\<bar>x\<bar> * 100))
      in (if x < 0 then [CHR ''-''] else []) @ str_nat (n div 100) @ [CHR ''.''] @
         [''0123456789'' ! (n mod 100 div 10), ''0123456789'' ! (n mod 10)])"

text \<open>\<open>sep.join(xs)\<close>.\<close>

fun join :: "string \<Rightarrow> string list \<Rightarrow> string" where
  "join sep [] = []"
| "join sep [x] = x"
| "join sep (x # y # ys) = x @ sep @ join sep (y # ys)"

section \<open>The routes that change the cart and the orders\<close>

text \<open>
  The session holds \<open>user_id\<close> and \<open>username\<close>, which \<open>register\<close> and \<open>login\<close> set
  together and \<open>logout\<close> removes together. A response is a redirect, a rendered
  template, or the exception that left the handler.
\<close>

record session =
  sess_user_id :: nat
  sess_username :: string

datatype http_method = GET | POST

datatype response = Redirect string | Render string | Raised error

text \<open>
  \<open>add_to_cart\<close>. The argument \<open>qty\<close> is the value of \<open>int(request.form['quantity'])\<close>;
  the handler hands it to \<open>add_item\<close> as it is.
\<close>

definition add_to_cart :: "session option \<Rightarrow> string \<Rightarrow> int \<Rightarrow> world \<Rightarrow> response \<times> world" where
  "add_to_cart sess product_name qty w =
     (case sess of
        None \<Rightarrow> (Redirect ''login'', w)
      | Some se \<Rightarrow>
          (case get_product (wdb w) product_name of
             None \<Rightarrow> (Redirect ''view_catalog'', w)
           | Some p \<Rightarrow>
               (case fetch_user (wdb w) (sess_username se) of
                  None \<Rightarrow> (Raised TypeError, w)
                | Some u \<Rightarrow>
                    (let (user_obj, s1) =
                           User_init (u_id u) (u_username u) (u_password u) (wobjs w)
                     in (Redirect ''view_catalog'', w\<lparr>wobjs := add_item p qty s1\<rparr>)))))"

definition summary_line :: "(real \<Rightarrow> string) \<Rightarrow> cart_item \<Rightarrow> string" where
  "summary_line other item =
     str_int (quantity item) @ ''x '' @ name (product item) @ '' at $'' @
     str_float other (price (product item)) @ '' each''"

definition order_summary :: "(real \<Rightarrow> string) \<Rightarrow> items_dict \<Rightarrow> real \<Rightarrow> string" where
  "order_summary other d amount =
     join ''\<newline>'' (map (summary_line other) (dict_values d)) @
     ''\<newline>Total Amount: $'' @ format_2f amount"

text \<open>
  \<open>checkout\<close>. The handler constructs its gateway itself; the body is written over
  the gateway so that both branches of \<open>if payment_successful\<close> can be reached, and
  \<open>checkout\<close> is the body with \<open>MockPaymentGateway\<close>. \<open>form\<close> is
  \<open>request.form.get('payment_method')\<close>: indexing the form with a missing key raises.
  The summary is built after \<open>confirm_order\<close>, from the dictionary the order refers to.
\<close>

definition checkout_with ::
  "payment_gateway \<Rightarrow> (real \<Rightarrow> string) \<Rightarrow> session option \<Rightarrow> http_method \<Rightarrow> string option \<Rightarrow>
   world \<Rightarrow> response \<times> world" where
  "checkout_with gateway other sess meth form w =
     (case sess of
        None \<Rightarrow> (Redirect ''login'', w)
      | Some se \<Rightarrow>
          (case fetch_user (wdb w) (sess_username se) of
             None \<Rightarrow> (Raised TypeError, w)
           | Some u \<Rightarrow>
               (let (user_obj, s1) =
                      User_init (u_id u) (u_username u) (u_password u) (wobjs w);
                    w1 = w\<lparr>wobjs := s1\<rparr>
                in case meth of
                     GET \<Rightarrow> (Render ''checkout.html'', w1)
                   | POST \<Rightarrow>
                       (case create_order user_obj s1 of
                          Inl e \<Rightarrow> (Raised e, w1)
                        | Inr ord \<Rightarrow>
                            (case form of
                               None \<Rightarrow> (Raised BadRequestKeyError, w1)
                             | Some pm \<Rightarrow>
                                 (let (payment_successful, amount) =
                                        process_order_payment gateway ord pm s1
                                  in if payment_successful
                                     then (let s2 = confirm_order user_obj s1;
                                               sm = order_summary other
                                                      (heap s2 (order_items ord)) amount
                                           in (Redirect ''order_history'',
                                               \<lparr>wdb = insert_order (user_id user_obj) amount pm sm
                                                        (wdb w),
                                                wobjs = s2\<rparr>))
                                     else (Render ''checkout.html'', w1)))))))"

definition checkout ::
  "(real \<Rightarrow> string) \<Rightarrow> session option \<Rightarrow> http_method \<Rightarrow> string option \<Rightarrow> world \<Rightarrow>
   response \<times> world" where
  "checkout = checkout_with MockPaymentGateway"

section \<open>Start of the process\<close>

definition empty_database :: database where
  "empty_database =
     \<lparr>products = [], products_seq = 0, users = [], users_seq = 0, orders = [], orders_seq = 0\<rparr>"

text \<open>The catalog the module adds when the products table is empty, in its order.\<close>

definition seed_products :: "product list" where
  "seed_products =
     [\<lparr>name = ''Laptop'', price = 1200, category = ''Electronics''\<rparr>,
      \<lparr>name = ''Smartphone'', price = 800, category = ''Electronics''\<rparr>,
      \<lparr>name = ''Tablet'', price = 500, category = ''Electronics''\<rparr>,
      \<lparr>name = ''Refrigerator'', price = 1500, category = ''Home Appliances''\<rparr>,
      \<lparr>name = ''Microwave'', price = 200, category = ''Home Appliances''\<rparr>,
      \<lparr>name = ''Washing Machine'', price = 1000, category = ''Home Appliances''\<rparr>,
      \<lparr>name = ''The Hobbit'', price = 40, category = ''Books''\<rparr>,
      \<lparr>name = ''Train to Pakistan'', price = 35, category = ''Books''\<rparr>,
      \<lparr>name = ''Harry Potter and the Deathly Hallows'', price = 55, category = ''Books''\<rparr>,
      \<lparr>name = ''Shirt'', price = 30, category = ''Clothing''\<rparr>,
      \<lparr>name = ''Jeans'', price = 50, category = ''Clothing''\<rparr>,
      \<lparr>name = ''Jacket'', price = 100, category = ''Clothing''\<rparr>]"

definition seed_catalog :: "database \<Rightarrow> database" where
  "seed_catalog db = (if fetch_products db = [] then fold add_product seed_products db else db)"

definition initial_world :: world where
  "initial_world = \<lparr>wdb = seed_catalog empty_database, wobjs = empty_store\<rparr>"

section \<open>Notions used in the statements\<close>

text \<open>The sum of price times quantity over the lines of a dictionary.\<close>

definition lines_total :: "items_dict \<Rightarrow> real" where
  "lines_total d = (\<Sum>item\<leftarrow>dict_values d. price (product item) * of_int (quantity item))"

text \<open>Every line of a dictionary has a quantity above zero.\<close>

definition positive_lines :: "items_dict \<Rightarrow> bool" where
  "positive_lines d = list_all (\<lambda>item. 0 < quantity item) (dict_values d)"

text \<open>A cart operation that is not an \<open>add_item\<close> with a quantity of zero or less.\<close>

fun positive_add :: "cart_op \<Rightarrow> bool" where
  "positive_add (Add p q) = (0 < q)"
| "positive_add (Remove p) = True"
| "positive_add Clear = True"

fun is_clear :: "cart_op \<Rightarrow> bool" where
  "is_clear Clear = True"
| "is_clear (Add p q) = False"
| "is_clear (Remove p) = False"

text \<open>
  The operations of a sequence that come before its first \<open>clear\<close>.
\<close>

definition before_clear :: "cart_op list \<Rightarrow> cart_op list" where
  "before_clear ops = takeWhile (\<lambda>x. \<not> is_clear x) ops"







text \<open>A sequence of \<open>insert_order\<close> calls, each given by its four arguments.\<close>

definition insert_orders :: "(nat \<times> real \<times> string \<times> string) list \<Rightarrow> database \<Rightarrow> database" where
  "insert_orders xs db = fold (\<lambda>(uid, amount, pm, sm). insert_order uid amount pm sm) xs db"

text \<open>
  The scenario of the specification, through the handlers: \<open>register\<close> stores the new
  user's id and name in the session, two \<open>add_to_cart\<close> requests, then a \<open>POST\<close> to
  \<open>checkout\<close>.
\<close>

definition scenario_cart :: "session option \<times> world" where
  "scenario_cart =
     (let (r, w1) = register_user ''alice'' ''pw1'' initial_world;
          sess = (case r of
                    Inr u \<Rightarrow> Some \<lparr>sess_user_id = user_id u, sess_username = username u\<rparr>
                  | Inl e \<Rightarrow> None);
          w2 = snd (add_to_cart sess ''Laptop'' 2 w1);
          w3 = snd (add_to_cart sess ''Shirt'' 1 w2)
      in (sess, w3))"


text \<open>Values used in the examples.\<close>

definition shirt :: product where
  "shirt = \<lparr>name = ''Shirt'', price = 30, category = ''Clothing''\<rparr>"

definition jeans :: product where
  "jeans = \<lparr>name = ''Jeans'', price = 50, category = ''Clothing''\<rparr>"

definition alice :: user where
  "alice = \<lparr>user_id = 1, username = ''alice'', password = ''pw1''\<rparr>"

text \<open>The store after the first \<open>Cart.get_instance()\<close> of the process: one empty cart.\<close>

definition fresh_cart :: store where
  "fresh_cart = snd (get_instance empty_store)"

text \<open>A gateway that declines every amount.\<close>

definition DecliningGateway :: payment_gateway where
  "DecliningGateway amount = False"

section \<open>Dictionaries\<close>

lemma update_absent: "map_of d k = None \<Longrightarrow> AList.update k v d = d @ [(k, v)]"
  by (induction d) (auto split: if_splits)

lemma update_last_entry:
  "map_of d k = None \<Longrightarrow> AList.update k v (d @ [(k, v0)]) = d @ [(k, v)]"
  by (induction d) (auto split: if_splits)

lemma map_of_last_entry: "map_of d k = None \<Longrightarrow> map_of (d @ [(k, v)]) k = Some v"
  by (induction d) (auto split: if_splits)

lemma update_entries_subset: "set (AList.update k v d) \<subseteq> insert (k, v) (set d)"
  by (induction d) auto

lemma delete_entries_subset: "set (AList.delete k d) \<subseteq> set d"
  by (induction d) auto

section \<open>The store invariant\<close>

lemma store_ok_empty_store: "store_ok empty_store"
  by (simp add: store_ok_def empty_store_def)

lemma store_ok_get_instance: "store_ok s \<Longrightarrow> store_ok (snd (get_instance s))"
  by (simp add: store_ok_def get_instance_def new_dict_def split: option.splits)

lemma store_ok_cart_step: "store_ok s \<Longrightarrow> store_ok (cart_step x s)"
  by (cases x)
     (simp_all add: store_ok_def add_item_def remove_item_def clear_def new_dict_def
        split: option.splits)

section \<open>Properties of the cart\<close>

lemma add_item_dict_absent:
  "map_of d (name p) = None \<Longrightarrow>
   add_item_dict p q d = d @ [(name p, \<lparr>product = p, quantity = q\<rparr>)]"
  by (simp add: add_item_dict_def update_absent)

lemma add_item_dict_last:
  "map_of d (name p) = None \<Longrightarrow>
   add_item_dict p q (d @ [(name p, it)]) = d @ [(name p, it\<lparr>quantity := quantity it + q\<rparr>)]"
  using map_of_last_entry [of d "name p" it]
  by (simp add: add_item_dict_def update_last_entry del: map_of_append)

lemma fold_add_item_dict_last:
  "map_of d (name p) = None \<Longrightarrow>
   fold (add_item_dict p) qs (d @ [(name p, it)]) =
   d @ [(name p, it\<lparr>quantity := quantity it + sum_list qs\<rparr>)]"
proof (induction qs arbitrary: it)
  case Nil
  then show ?case by simp
next
  case (Cons q qs)
  then show ?case by (simp add: add_item_dict_last add.assoc)
qed

lemma fold_add_item_dict_absent:
  assumes "map_of d (name p) = None" and "qs \<noteq> []"
  shows "fold (add_item_dict p) qs d = d @ [(name p, \<lparr>product = p, quantity = sum_list qs\<rparr>)]"
proof (cases qs)
  case Nil
  with assms show ?thesis by simp
next
  case (Cons q qs')
  with assms show ?thesis
    by (simp add: add_item_dict_absent fold_add_item_dict_last)
qed

lemma Cart_instance_add_item [simp]: "Cart_instance (add_item p q s) = Cart_instance s"
  by (simp add: add_item_def split: option.splits)

lemma heap_add_item:
  "Cart_instance s = Some a \<Longrightarrow> heap (add_item p q s) a = add_item_dict p q (heap s a)"
  by (simp add: add_item_def)

lemma Cart_instance_fold_add_item [simp]:
  "Cart_instance (fold (add_item p) qs s) = Cart_instance s"
  by (induction qs arbitrary: s) simp_all

lemma heap_fold_add_item:
  "Cart_instance s = Some a \<Longrightarrow>
   heap (fold (add_item p) qs s) a = fold (add_item_dict p) qs (heap s a)"
  by (induction qs arbitrary: s) (simp_all add: heap_add_item)

lemma filter_absent: "map_of d k = None \<Longrightarrow> filter (\<lambda>kv. fst kv = k) d = []"
  by (induction d) (auto split: if_splits)

text \<open>
  Claim C6. A sequence of at least one \<open>add_item\<close> call for one product, on a cart
  that has no line for it, appends exactly one line to the cart: its quantity is the sum
  of the quantities passed, and it is the only line under the product's name.
\<close>

theorem add_item_same_product_sums:
  assumes "Cart_instance s = Some a"
    and "map_of (cart_lines s) (name p) = None"
    and "qs \<noteq> []"
  shows "cart_lines (fold (add_item p) qs s) =
           cart_lines s @ [(name p, \<lparr>product = p, quantity = sum_list qs\<rparr>)] \<and>
         filter (\<lambda>kv. fst kv = name p) (cart_lines (fold (add_item p) qs s)) =
           [(name p, \<lparr>product = p, quantity = sum_list qs\<rparr>)]"
proof -
  have absent: "map_of (heap s a) (name p) = None"
    using assms(1,2) by (simp add: cart_lines_def)
  have "cart_lines (fold (add_item p) qs s) = fold (add_item_dict p) qs (heap s a)"
    using assms(1) by (simp add: heap_fold_add_item cart_lines_def)
  also have "\<dots> = heap s a @ [(name p, \<lparr>product = p, quantity = sum_list qs\<rparr>)]"
    using absent assms(3) by (rule fold_add_item_dict_absent)
  finally have eq: "cart_lines (fold (add_item p) qs s) =
      cart_lines s @ [(name p, \<lparr>product = p, quantity = sum_list qs\<rparr>)]"
    using assms(1) by (simp add: cart_lines_def)
  show ?thesis
    using eq assms(2) by (simp add: filter_absent)
qed

theorem add_item_same_product_sums_witness:
  "cart_lines (fold (add_item shirt) [2, 3, 1] (add_item jeans 4 fresh_cart)) =
     [(''Jeans'', \<lparr>product = jeans, quantity = 4\<rparr>),
      (''Shirt'', \<lparr>product = shirt, quantity = 6\<rparr>)]"
  using add_item_same_product_sums [of "add_item jeans 4 fresh_cart" 0 shirt "[2, 3, 1]"]
  by (simp add: fresh_cart_def get_instance_def new_dict_def empty_store_def cart_lines_def
      add_item_def add_item_dict_def shirt_def jeans_def)

subsection \<open>Quantities of the lines\<close>

lemma positive_lines_iff: "positive_lines d \<longleftrightarrow> (\<forall>kv \<in> set d. 0 < quantity (snd kv))"
  by (auto simp: positive_lines_def dict_values_def list_all_iff)

lemma positive_update:
  assumes "positive_lines d" and "0 < quantity v"
  shows "positive_lines (AList.update k v d)"
  unfolding positive_lines_iff
proof
  fix kv assume "kv \<in> set (AList.update k v d)"
  then have "kv = (k, v) \<or> kv \<in> set d"
    using update_entries_subset [of k v d] by auto
  then show "0 < quantity (snd kv)"
    using assms by (auto simp: positive_lines_iff)
qed

lemma positive_add_item_dict:
  assumes "positive_lines d" and "0 < q"
  shows "positive_lines (add_item_dict p q d)"
proof (cases "map_of d (name p)")
  case None
  then show ?thesis
    using assms by (simp add: add_item_dict_def positive_update)
next
  case (Some it)
  then have "(name p, it) \<in> set d"
    by (rule map_of_SomeD)
  then have "0 < quantity it"
    using assms(1) by (auto simp: positive_lines_iff)
  then show ?thesis
    using Some assms by (simp add: add_item_dict_def positive_update)
qed

lemma positive_remove_item_dict:
  "positive_lines d \<Longrightarrow> positive_lines (remove_item_dict p d)"
  using delete_entries_subset [of "name p" d]
  by (auto simp: positive_lines_iff remove_item_dict_def)

lemma positive_cart_step:
  assumes "positive_lines (cart_lines s)" and "positive_add x"
  shows "positive_lines (cart_lines (cart_step x s))"
proof (cases x)
  case (Add p q)
  with assms show ?thesis
    by (auto simp: cart_lines_def add_item_def positive_add_item_dict split: option.splits)
next
  case (Remove p)
  with assms show ?thesis
    by (auto simp: cart_lines_def remove_item_def positive_remove_item_dict split: option.splits)
next
  case Clear
  with assms show ?thesis
    by (auto simp: cart_lines_def clear_def new_dict_def positive_lines_def dict_values_def
        split: option.splits)
qed

text \<open>
  Claim C2. The quantity handed to \<open>add_item\<close> is to be a positive integer. When
  every \<open>add_item\<close> of a sequence of cart operations is given a quantity above zero,
  every line the cart holds afterwards has a quantity above zero: from a cart whose lines
  are positive, an empty one in particular, through any \<open>add_item\<close>, \<open>remove_item\<close>
  and \<open>clear\<close> calls.
\<close>

theorem positive_adds_keep_lines_positive:
  assumes "list_all positive_add ops" and "positive_lines (cart_lines s)"
  shows "positive_lines (cart_lines (cart_run ops s))"
  using assms unfolding cart_run_def
proof (induction ops arbitrary: s)
  case Nil
  then show ?case by simp
next
  case (Cons x ops)
  then show ?case by (simp add: positive_cart_step)
qed

theorem positive_adds_keep_lines_positive_witness:
  "positive_lines (cart_lines (cart_run
     [Add shirt 2, Add shirt 1, Clear, Add jeans 4, Add shirt 5, Remove shirt] fresh_cart)) \<and>
   cart_lines (cart_run
     [Add shirt 2, Add shirt 1, Clear, Add jeans 4, Add shirt 5, Remove shirt] fresh_cart) =
     [(''Jeans'', \<lparr>product = jeans, quantity = 4\<rparr>)]"
  using positive_adds_keep_lines_positive [of
     "[Add shirt 2, Add shirt 1, Clear, Add jeans 4, Add shirt 5, Remove shirt]" fresh_cart]
  by (simp add: fresh_cart_def get_instance_def new_dict_def empty_store_def cart_lines_def
      positive_lines_def dict_values_def cart_run_def add_item_def add_item_dict_def
      remove_item_def remove_item_dict_def dict_contains_def clear_def shirt_def jeans_def)

section \<open>Orders and the payment total\<close>

lemma foldl_plus_sum_list: "foldl (+) a xs = a + sum_list (xs :: real list)"
  by (induction xs arbitrary: a) (simp_all add: add.assoc)

lemma py_sum_sum_list: "py_sum xs = sum_list xs"
  by (simp add: py_sum_def foldl_plus_sum_list)

text \<open>The total is computed from the dictionary the order refers to, when it is called.\<close>

lemma payment_total:
  "snd (process_order_payment gateway ord pm s) = lines_total (heap s (order_items ord))"
  by (simp add: process_order_payment_def lines_total_def py_sum_sum_list Let_def)

lemma create_order_items:
  "create_order u s = Inr ord \<Longrightarrow> Cart_instance s = Some (order_items ord)"
  by (auto simp: create_order_def Order_init_def get_items_def split: option.splits if_splits)

lemma Cart_instance_remove_item [simp]: "Cart_instance (remove_item p s) = Cart_instance s"
  by (simp add: remove_item_def split: option.splits)

text \<open>Without \<open>clear\<close> the cart keeps its dictionary.\<close>

lemma Cart_instance_no_clear:
  "list_all (\<lambda>x. \<not> is_clear x) ops \<Longrightarrow> Cart_instance (cart_run ops s) = Cart_instance s"
  unfolding cart_run_def
proof (induction ops arbitrary: s)
  case Nil
  then show ?case by simp
next
  case (Cons x ops)
  then show ?case by (cases x) simp_all
qed


lemma cart_lines_clear: "cart_lines (clear s) = []"
  by (simp add: cart_lines_def clear_def new_dict_def split: option.splits)

lemma cart_run_append: "cart_run (xs @ ys) s = cart_run ys (cart_run xs s)"
  by (simp add: cart_run_def)

lemma next_addr_add_item [simp]: "next_addr (add_item p q s) = next_addr s"
  by (simp add: add_item_def split: option.splits)

lemma next_addr_remove_item [simp]: "next_addr (remove_item p s) = next_addr s"
  by (simp add: remove_item_def split: option.splits)

lemma next_addr_no_clear:
  "list_all (\<lambda>x. \<not> is_clear x) ops \<Longrightarrow> next_addr (cart_run ops s) = next_addr s"
  unfolding cart_run_def
proof (induction ops arbitrary: s)
  case Nil
  then show ?case by simp
next
  case (Cons x ops)
  then show ?case by (cases x) simp_all
qed

text \<open>
  A dictionary that is not the cart's is out of reach of the cart's methods: no
  operation changes it, and no later \<open>clear\<close> makes it the cart's again.
\<close>

lemma cart_step_keeps_other_dictionary:
  assumes "Cart_instance s = Some c" and "c \<noteq> a" and "a < next_addr s"
  shows "heap (cart_step x s) a = heap s a \<and>
         (\<exists>c'. Cart_instance (cart_step x s) = Some c' \<and> c' \<noteq> a) \<and>
         a < next_addr (cart_step x s)"
  using assms
  by (cases x) (auto simp: add_item_def remove_item_def clear_def new_dict_def)

lemma cart_run_keeps_other_dictionary:
  assumes "Cart_instance s = Some c" and "c \<noteq> a" and "a < next_addr s"
  shows "heap (cart_run ops s) a = heap s a"
  using assms unfolding cart_run_def
proof (induction ops arbitrary: s c)
  case Nil
  then show ?case by simp
next
  case (Cons x ops)
  from cart_step_keeps_other_dictionary [OF Cons.prems, of x]
  obtain c' where "heap (cart_step x s) a = heap s a"
    and "Cart_instance (cart_step x s) = Some c'" and "c' \<noteq> a"
    and "a < next_addr (cart_step x s)"
    by blast
  with Cons.IH [of "cart_step x s" c'] show ?case by simp
qed

text \<open>Once the cart has been cleared, the dictionary it had is out of its reach.\<close>

lemma cart_run_after_clear:
  assumes "Cart_instance s = Some a" and "a < next_addr s"
  shows "heap (cart_run (Clear # ops) s) a = heap s a"
proof -
  have "Cart_instance (clear s) = Some (next_addr s)" and "a < next_addr (clear s)"
    and "heap (clear s) a = heap s a"
    using assms by (simp_all add: clear_def new_dict_def)
  then show ?thesis
    using cart_run_keeps_other_dictionary [of "clear s" "next_addr s" a ops] assms(2)
    by (simp add: cart_run_def)
qed

text \<open>
  Claim C1, as the code has it. The order holds the cart's dictionary itself, not a copy,
  and \<open>process_order_payment\<close> reads that dictionary when it is called. Until the
  cart is cleared the dictionary is the cart's: \<open>add_item\<close> and \<open>remove_item\<close> calls
  made after \<open>create_order\<close> change the total with the cart. \<open>clear\<close> gives the cart a
  new dictionary, and nothing done to the cart from then on reaches the order. So after
  any sequence of cart operations the total is the sum of price times quantity over the
  lines the cart had just before the first \<open>clear\<close> of the sequence (at the time of
  payment when there is none). With no \<open>add_item\<close> or \<open>remove_item\<close> before that
  point, this is the sum over the lines at \<open>create_order\<close>.
\<close>

theorem payment_total_follows_order_dictionary:
  assumes "create_order u s = Inr ord" and "store_ok s"
  shows "snd (process_order_payment gateway ord pm (cart_run ops s)) =
         lines_total (cart_lines (cart_run (before_clear ops) s))"
proof -
  define pre where "pre = before_clear ops"
  define post where "post = dropWhile (\<lambda>x. \<not> is_clear x) ops"
  define s1 where "s1 = cart_run pre s"
  have ops: "ops = pre @ post"
    by (simp add: pre_def post_def before_clear_def)
  have pre: "list_all (\<lambda>x. \<not> is_clear x) pre"
    unfolding pre_def before_clear_def list_all_iff by (auto dest: set_takeWhileD)
  have inst: "Cart_instance s = Some (order_items ord)"
    using assms(1) by (rule create_order_items)
  have inst1: "Cart_instance s1 = Some (order_items ord)"
    using Cart_instance_no_clear [OF pre, of s] inst by (simp add: s1_def)
  have below1: "order_items ord < next_addr s1"
    using next_addr_no_clear [OF pre, of s] assms(2) inst by (simp add: s1_def store_ok_def)
  have "heap (cart_run post s1) (order_items ord) = heap s1 (order_items ord)"
  proof (cases post)
    case Nil
    then show ?thesis by (simp add: cart_run_def)
  next
    case (Cons x rest)
    then have "is_clear x"
      using hd_dropWhile [of "\<lambda>x. \<not> is_clear x" ops] by (simp add: post_def)
    then have "x = Clear" by (cases x) simp_all
    with Cons show ?thesis
      using cart_run_after_clear [OF inst1 below1] by simp
  qed
  then have "heap (cart_run ops s) (order_items ord) = cart_lines s1"
    using inst1 by (simp add: ops cart_run_append s1_def cart_lines_def)
  then show ?thesis
    by (simp add: payment_total s1_def pre_def)
qed

theorem payment_total_follows_order_dictionary_witness:
  "snd (process_order_payment MockPaymentGateway \<lparr>order_user = alice, order_items = 0\<rparr> ''card''
          (cart_run [Add jeans 1, Clear, Add shirt 5] (add_item shirt 2 fresh_cart))) = 110 \<and>
   lines_total (cart_lines
          (cart_run [Add jeans 1, Clear, Add shirt 5] (add_item shirt 2 fresh_cart))) = 150"
  using payment_total_follows_order_dictionary [of alice "add_item shirt 2 fresh_cart"
      "\<lparr>order_user = alice, order_items = 0\<rparr>" MockPaymentGateway "''card''"
      "[Add jeans 1, Clear, Add shirt 5]"]
  by (simp add: create_order_def Order_init_def get_items_def store_ok_def add_item_def
      add_item_dict_def fresh_cart_def get_instance_def new_dict_def empty_store_def
      cart_lines_def lines_total_def dict_values_def cart_run_def clear_def before_clear_def
      shirt_def jeans_def)

text \<open>
  The claim as stated fails: an order is created from a cart holding one shirt (sum 30),
  a second shirt is added to the cart, and the payment of that order is 60.
\<close>

theorem payment_total_snapshot_counterexample:
  "create_order alice (add_item shirt 1 fresh_cart) =
     Inr \<lparr>order_user = alice, order_items = 0\<rparr> \<and>
   lines_total (cart_lines (add_item shirt 1 fresh_cart)) = 30 \<and>
   snd (process_order_payment MockPaymentGateway \<lparr>order_user = alice, order_items = 0\<rparr> ''card''
          (add_item shirt 1 (add_item shirt 1 fresh_cart))) = 60"
  by (simp add: create_order_def Order_init_def get_items_def add_item_def add_item_dict_def
      fresh_cart_def get_instance_def new_dict_def empty_store_def cart_lines_def
      lines_total_def dict_values_def process_order_payment_def py_sum_def shirt_def)

text \<open>
  Claim C3. On the cart of a user, \<open>create_order\<close> raises
  \<open>ValueError("Cart is empty.")\<close> (the specification's \<open>EmptyCartError\<close>) when the
  cart has no lines; when it has lines the call returns an order for that user whose
  dictionary holds exactly the lines of the cart.
\<close>

theorem create_order_empty_or_lines:
  assumes "Cart_instance s = Some a"
  shows "(cart_lines s = [] \<longrightarrow> create_order u s = Inl (ValueError ''Cart is empty.'')) \<and>
         (cart_lines s \<noteq> [] \<longrightarrow>
            (\<exists>ord. create_order u s = Inr ord \<and> order_user ord = u \<and>
                   heap s (order_items ord) = cart_lines s))"
  using assms by (simp add: create_order_def Order_init_def get_items_def cart_lines_def)

theorem create_order_empty_or_lines_witness:
  "create_order alice fresh_cart = Inl (ValueError ''Cart is empty.'') \<and>
   (\<exists>ord. create_order alice (add_item shirt 2 fresh_cart) = Inr ord \<and> order_user ord = alice \<and>
      heap (add_item shirt 2 fresh_cart) (order_items ord) =
        [(''Shirt'', \<lparr>product = shirt, quantity = 2\<rparr>)])"
  using create_order_empty_or_lines [of fresh_cart 0 alice]
    create_order_empty_or_lines [of "add_item shirt 2 fresh_cart" 0 alice]
  by (simp add: fresh_cart_def get_instance_def new_dict_def empty_store_def cart_lines_def
      add_item_def add_item_dict_def shirt_def)

section \<open>Registration\<close>

lemma fetch_user_None_iff:
  "fetch_user db un = None \<longleftrightarrow> \<not> (\<exists>row \<in> set (users db). u_username row = un)"
proof -
  have "fetch_user db un = None \<longleftrightarrow> filter (\<lambda>row. u_username row = un) (users db) = []"
    by (simp add: fetch_user_def split: list.splits)
  then show ?thesis by (simp add: filter_empty_conv)
qed

lemma filter_absent_users:
  "\<not> (\<exists>row \<in> set rows. u_username row = un) \<Longrightarrow>
   filter (\<lambda>row. u_username row = un) rows = []"
  by (simp add: filter_empty_conv)

text \<open>
  Claim C8. \<open>register_user\<close> fails exactly when the users table has a row of that name,
  with \<open>ValueError("User already exists.")\<close> (the specification's
  \<open>DuplicateUserError\<close>) and the state as it was. Otherwise it returns the new user,
  with the id of the new row, and the table is the old one followed by that row, the only
  row of that name.
\<close>

theorem register_user_duplicate_or_new:
  "(isl (fst (register_user un pw w)) \<longleftrightarrow> (\<exists>row \<in> set (users (wdb w)). u_username row = un)) \<and>
   ((\<exists>row \<in> set (users (wdb w)). u_username row = un) \<longrightarrow>
      register_user un pw w = (Inl (ValueError ''User already exists.''), w)) \<and>
   (\<not> (\<exists>row \<in> set (users (wdb w)). u_username row = un) \<longrightarrow>
      fst (register_user un pw w) =
        Inr \<lparr>user_id = Suc (users_seq (wdb w)), username = un, password = pw\<rparr> \<and>
      users (wdb (snd (register_user un pw w))) =
        users (wdb w) @
        [\<lparr>u_id = Suc (users_seq (wdb w)), u_username = un, u_password = pw\<rparr>] \<and>
      length (filter (\<lambda>row. u_username row = un)
                (users (wdb (snd (register_user un pw w))))) = 1)"
proof (cases "\<exists>row \<in> set (users (wdb w)). u_username row = un")
  case True
  then obtain r where "fetch_user (wdb w) un = Some r"
    using fetch_user_None_iff [of "wdb w" un] by auto
  with True show ?thesis by (simp add: register_user_def)
next
  case False
  then have none: "fetch_user (wdb w) un = None"
    by (simp add: fetch_user_None_iff)
  have flt: "filter (\<lambda>row. u_username row = un) (users (wdb w)) = []"
    using False by (rule filter_absent_users)
  have ins: "insert_user un pw (wdb w) =
      Inr ((wdb w)\<lparr>users := users (wdb w) @
              [\<lparr>u_id = Suc (users_seq (wdb w)), u_username = un, u_password = pw\<rparr>],
            users_seq := Suc (users_seq (wdb w))\<rparr>)"
    using False by (simp add: insert_user_def)
  show ?thesis
    using False none flt
    by (simp add: register_user_def ins fetch_user_def User_init_def split: prod.splits)
qed

lemma users_initial_world: "users (wdb initial_world) = []"
  by (simp add: initial_world_def seed_catalog_def empty_database_def fetch_products_def
      seed_products_def add_product_def insert_product_def)

lemma users_seq_initial_world: "users_seq (wdb initial_world) = 0"
  by (simp add: initial_world_def seed_catalog_def empty_database_def fetch_products_def
      seed_products_def add_product_def insert_product_def)

theorem register_user_duplicate_or_new_witness:
  "fst (register_user ''alice'' ''pw1'' initial_world) = Inr alice \<and>
   users (wdb (snd (register_user ''alice'' ''pw1'' initial_world))) =
     [\<lparr>u_id = 1, u_username = ''alice'', u_password = ''pw1''\<rparr>] \<and>
   register_user ''alice'' ''pw2'' (snd (register_user ''alice'' ''pw1'' initial_world)) =
     (Inl (ValueError ''User already exists.''),
      snd (register_user ''alice'' ''pw1'' initial_world))"
proof -
  have new: "fst (register_user ''alice'' ''pw1'' initial_world) = Inr alice \<and>
      users (wdb (snd (register_user ''alice'' ''pw1'' initial_world))) =
        [\<lparr>u_id = 1, u_username = ''alice'', u_password = ''pw1''\<rparr>]"
    using register_user_duplicate_or_new [of "''alice''" "''pw1''" initial_world]
    by (simp add: users_initial_world users_seq_initial_world alice_def)
  then have "\<exists>row \<in> set (users (wdb (snd (register_user ''alice'' ''pw1'' initial_world)))).
      u_username row = ''alice''"
    by simp
  then show ?thesis
    using new register_user_duplicate_or_new [of "''alice''" "''pw2''"
        "snd (register_user ''alice'' ''pw1'' initial_world)"]
    by blast
qed

section \<open>Order records and the catalog\<close>

lemma fetch_orders_insert_order:
  "fetch_orders_by_user_id (insert_order u amount pm sm db) uid =
   fetch_orders_by_user_id db uid @
   (if u = uid
    then [\<lparr>order_id = Suc (orders_seq db), total_amount = amount, payment_method = pm,
           summary = sm\<rparr>]
    else [])"
  by (simp add: fetch_orders_by_user_id_def insert_order_def)

lemma orders_seq_insert_order [simp]:
  "orders_seq (insert_order u amount pm sm db) = Suc (orders_seq db)"
  by (simp add: insert_order_def)

text \<open>
  Claim C9. After any sequence of \<open>insert_order\<close> calls, \<open>fetch_orders_by_user_id\<close>
  returns what it returned before, followed by the records of exactly those calls that
  named the user, in the order of the calls; each record has the id the table's counter
  gave it. From an empty table these are all the records of the user, oldest first.
\<close>

theorem fetch_orders_by_user_in_insertion_order:
  "fetch_orders_by_user_id (insert_orders xs db) uid =
   fetch_orders_by_user_id db uid @
   map (\<lambda>(i, u, amount, pm, sm).
          \<lparr>order_id = i, total_amount = amount, payment_method = pm, summary = sm\<rparr>)
     (filter (\<lambda>(i, u, amount, pm, sm). u = uid) (List.enumerate (Suc (orders_seq db)) xs))"
  unfolding insert_orders_def
proof (induction xs arbitrary: db)
  case Nil
  then show ?case by simp
next
  case (Cons x xs)
  obtain u amount pm sm where x: "x = (u, amount, pm, sm)"
    by (cases x) auto
  show ?case
    using Cons.IH [of "insert_order u amount pm sm db"]
    by (simp add: x fetch_orders_insert_order)
qed

theorem fetch_orders_by_user_in_insertion_order_witness:
  "fetch_orders_by_user_id
     (insert_orders [(1, 10, ''card'', ''a''), (2, 20, ''cash'', ''b''), (1, 30, ''card'', ''c'')]
        empty_database) 1 =
     [\<lparr>order_id = 1, total_amount = 10, payment_method = ''card'', summary = ''a''\<rparr>,
      \<lparr>order_id = 3, total_amount = 30, payment_method = ''card'', summary = ''c''\<rparr>]"
  using fetch_orders_by_user_in_insertion_order [of
      "[(1, 10, ''card'', ''a''), (2, 20, ''cash'', ''b''), (1, 30, ''card'', ''c'')]"
      empty_database 1]
  by (simp add: empty_database_def fetch_orders_by_user_id_def)

lemma fetch_product_add_product:
  "fetch_product_by_name (add_product q db) n =
   (case fetch_product_by_name db n of
      Some p \<Rightarrow> Some p
    | None \<Rightarrow> if name q = n then Some q else None)"
  by (simp add: fetch_product_by_name_def add_product_def insert_product_def split: list.splits)

lemma get_product_fetch: "get_product db n = fetch_product_by_name db n"
  by (simp add: get_product_def split: option.splits)

text \<open>
  Claim C10. After products have been added to the catalog, \<open>get_product\<close> returns the
  product it returned before when there was one of that name, and otherwise the first of
  the added products that has the name: the earliest inserted one, whatever was added
  under the same name later.
\<close>

theorem get_product_earliest_of_name:
  "get_product (fold add_product ps db) n =
   (case get_product db n of
      Some p \<Rightarrow> Some p
    | None \<Rightarrow> find (\<lambda>p. name p = n) ps)"
proof (induction ps arbitrary: db)
  case Nil
  then show ?case by (simp split: option.splits)
next
  case (Cons q ps)
  show ?case
    using Cons.IH [of "add_product q db"]
    by (simp add: get_product_fetch fetch_product_add_product split: option.splits)
qed

theorem get_product_earliest_of_name_witness:
  "get_product (fold add_product [jeans, shirt, shirt\<lparr>price := 45\<rparr>, shirt\<lparr>price := 15\<rparr>]
                  empty_database) ''Shirt'' = Some shirt"
  using get_product_earliest_of_name [of
      "[jeans, shirt, shirt\<lparr>price := 45\<rparr>, shirt\<lparr>price := 15\<rparr>]" empty_database "''Shirt''"]
  by (simp add: get_product_def fetch_product_by_name_def empty_database_def shirt_def jeans_def)

section \<open>Checkout\<close>



subsection \<open>The scenario, evaluated\<close>

lemmas scenario_cart_defs =
  scenario_cart_def initial_world_def seed_catalog_def seed_products_def
  empty_database_def empty_store_def fetch_products_def add_product_def insert_product_def
  register_user_def fetch_user_def insert_user_def User_init_def get_instance_def new_dict_def
  add_to_cart_def get_product_def fetch_product_by_name_def add_item_def add_item_dict_def

lemma scenario_cart_session:
  "fst scenario_cart = Some \<lparr>sess_user_id = 1, sess_username = ''alice''\<rparr>"
  by (simp add: scenario_cart_defs Let_def)

lemma scenario_cart_user:
  "fetch_user (wdb (snd scenario_cart)) ''alice'' =
     Some \<lparr>u_id = 1, u_username = ''alice'', u_password = ''pw1''\<rparr>"
  by (simp add: scenario_cart_defs Let_def)

lemma scenario_cart_orders:
  "orders (wdb (snd scenario_cart)) = [] \<and> orders_seq (wdb (snd scenario_cart)) = 0"
  by (simp add: scenario_cart_defs Let_def)

lemma scenario_cart_store:
  "Cart_instance (wobjs (snd scenario_cart)) = Some 0 \<and>
   next_addr (wobjs (snd scenario_cart)) = 1 \<and>
   heap (wobjs (snd scenario_cart)) 0 =
     [(''Laptop'', \<lparr>product = \<lparr>name = ''Laptop'', price = 1200, category = ''Electronics''\<rparr>,
                    quantity = 2\<rparr>),
      (''Shirt'', \<lparr>product = shirt, quantity = 1\<rparr>)]"
  by (simp add: scenario_cart_defs Let_def shirt_def)

lemma scenario_cart_lines:
  "cart_lines (wobjs (snd scenario_cart)) =
     [(''Laptop'', \<lparr>product = \<lparr>name = ''Laptop'', price = 1200, category = ''Electronics''\<rparr>,
                    quantity = 2\<rparr>),
      (''Shirt'', \<lparr>product = shirt, quantity = 1\<rparr>)]"
  by (simp add: cart_lines_def scenario_cart_store)





subsection \<open>Approved and declined payments\<close>

text \<open>
  Claim C4. A logged-in user posts a checkout, an order is created from the cart, and the
  gateway approves the total that \<open>process_order_payment\<close> computed for the order.
  Then the handler redirects to the order history; afterwards the cart has no lines and
  the orders table is the old table followed by exactly one new row, for that user and
  \<open>payment_method\<close>, whose total is the total \<open>process_order_payment\<close> returned.
\<close>

theorem checkout_approved_empties_cart_and_records_order:
  assumes "sess = Some se"
    and "fetch_user (wdb w) (sess_username se) = Some u"
    and "create_order \<lparr>user_id = u_id u, username = u_username u, password = u_password u\<rparr>
           (wobjs w) = Inr ord"
    and "process_order_payment gateway ord pm (wobjs w) = (True, amount)"
  shows "\<exists>w' row.
           checkout_with gateway other sess POST (Some pm) w = (Redirect ''order_history'', w') \<and>
           cart_lines (wobjs w') = [] \<and>
           orders (wdb w') = orders (wdb w) @ [row] \<and>
           o_total_amount row = amount \<and> o_user_id row = u_id u \<and> o_payment_method row = pm"
proof -
  have "Cart_instance (wobjs w) = Some (order_items ord)"
    using assms(3) by (rule create_order_items)
  then have same: "snd (get_instance (wobjs w)) = wobjs w"
    by (simp add: get_instance_def)
  define row where "row = \<lparr>o_order_id = Suc (orders_seq (wdb w)), o_user_id = u_id u,
      o_total_amount = amount, o_payment_method = pm,
      o_summary = order_summary other (heap (clear (wobjs w)) (order_items ord)) amount\<rparr>"
  define w' where "w' = \<lparr>wdb = (wdb w)\<lparr>orders := orders (wdb w) @ [row],
                                      orders_seq := Suc (orders_seq (wdb w))\<rparr>,
                         wobjs = clear (wobjs w)\<rparr>"
  have run: "checkout_with gateway other sess POST (Some pm) w = (Redirect ''order_history'', w')"
    using assms
    by (simp add: checkout_with_def User_init_def same confirm_order_def insert_order_def
        Let_def w'_def row_def)
  have "cart_lines (wobjs w') = []"
    by (simp add: w'_def cart_lines_clear)
  moreover have "orders (wdb w') = orders (wdb w) @ [row]"
    by (simp add: w'_def)
  moreover have "o_total_amount row = amount \<and> o_user_id row = u_id u \<and> o_payment_method row = pm"
    by (simp add: row_def)
  ultimately show ?thesis
    using run by blast
qed

theorem checkout_approved_empties_cart_and_records_order_witness:
  "\<exists>w' row.
     checkout (\<lambda>x. []) (fst scenario_cart) POST (Some ''card'') (snd scenario_cart) =
       (Redirect ''order_history'', w') \<and>
     cart_lines (wobjs w') = [] \<and> orders (wdb w') = [row] \<and>
     o_total_amount row = 2430 \<and> o_user_id row = 1 \<and> o_payment_method row = ''card''"
  using checkout_approved_empties_cart_and_records_order [of "fst scenario_cart"
      "\<lparr>sess_user_id = 1, sess_username = ''alice''\<rparr>" "snd scenario_cart"
      "\<lparr>u_id = 1, u_username = ''alice'', u_password = ''pw1''\<rparr>"
      "\<lparr>order_user = alice, order_items = 0\<rparr>" MockPaymentGateway "''card''" 2430 "\<lambda>x. []"]
  by (simp add: scenario_cart_session scenario_cart_user scenario_cart_store
      scenario_cart_orders create_order_def Order_init_def get_items_def alice_def
      process_order_payment_def py_sum_def dict_values_def MockPaymentGateway_def shirt_def
      checkout_def)

text \<open>
  Claim C5. The handler builds a \<open>MockPaymentGateway\<close>, which approves every amount;
  the branch for a declined payment is reached with any gateway that declines. There, for
  a logged-in user with a non-empty cart whose total the gateway declines, the \<open>POST\<close>
  renders the checkout page again and the whole state, the cart and the orders table
  with it, is what it was before.
\<close>

theorem checkout_declined_changes_nothing:
  assumes "sess = Some se"
    and "fetch_user (wdb w) (sess_username se) = Some u"
    and "Cart_instance (wobjs w) = Some a"
    and "cart_lines (wobjs w) \<noteq> []"
    and "\<not> gateway (lines_total (cart_lines (wobjs w)))"
  shows "checkout_with gateway other sess POST (Some pm) w = (Render ''checkout.html'', w)"
proof -
  have same: "snd (get_instance (wobjs w)) = wobjs w"
    using assms(3) by (simp add: get_instance_def)
  have lines: "cart_lines (wobjs w) = heap (wobjs w) a"
    using assms(3) by (simp add: cart_lines_def)
  have declined:
    "process_order_payment gateway \<lparr>order_user = usr, order_items = a\<rparr> pm (wobjs w) =
      (False, lines_total (heap (wobjs w) a))" for usr
    using assms(5) lines
    by (simp add: process_order_payment_def Let_def lines_total_def py_sum_sum_list)
  show ?thesis
    using assms(1-4) lines
    by (simp add: checkout_with_def User_init_def same create_order_def Order_init_def
        get_items_def declined)
qed

theorem checkout_declined_changes_nothing_witness:
  "checkout_with DecliningGateway (\<lambda>x. []) (fst scenario_cart) POST (Some ''card'')
     (snd scenario_cart) = (Render ''checkout.html'', snd scenario_cart)"
  using checkout_declined_changes_nothing [of "fst scenario_cart"
      "\<lparr>sess_user_id = 1, sess_username = ''alice''\<rparr>" "snd scenario_cart"
      "\<lparr>u_id = 1, u_username = ''alice'', u_password = ''pw1''\<rparr>" 0 DecliningGateway
      "\<lambda>x. []" "''card''"]
  by (simp add: scenario_cart_session scenario_cart_user scenario_cart_store
      scenario_cart_lines DecliningGateway_def)

subsection \<open>The texts of numbers\<close>

















subsection \<open>The summary of the order record\<close>



end
